theory Spec2Isabelle
  imports Complex_Main "HOL-Library.Sublist"
begin

section \<open>Text: Python \<open>str\<close> operations used by the scripts\<close>

text \<open>
  A Python \<open>str\<close> is a sequence of code points. The model takes the code points
  below 256 (ASCII and Latin-1), one \<^typ>\<open>char\<close> each; the classifications below
  are those of \<open>str.isspace\<close>, \<open>str.isdigit\<close> and \<open>str.lower\<close> on that range.
\<close>

definition newline :: char where
  "newline = CHR 0x0A"

definition isspace :: "char \<Rightarrow> bool" where
  "isspace c =
     (let n = (of_char c :: nat)
      in (9 \<le> n \<and> n \<le> 13) \<or> (28 \<le> n \<and> n \<le> 32) \<or> n = 133 \<or> n = 160)"

definition isdigit :: "char \<Rightarrow> bool" where
  "isdigit c =
     (let n = (of_char c :: nat)
      in (48 \<le> n \<and> n \<le> 57) \<or> n = 178 \<or> n = 179 \<or> n = 185)"

definition lower_char :: "char \<Rightarrow> char" where
  "lower_char c =
     (let n = (of_char c :: nat)
      in if (65 \<le> n \<and> n \<le> 90) \<or> (192 \<le> n \<and> n \<le> 222 \<and> n \<noteq> 215)
         then char_of (n + 32) else c)"

definition lower :: "string \<Rightarrow> string" where
  "lower s = map lower_char s"

text \<open>\<open>s.strip()\<close>: whitespace removed at both ends.\<close>

definition lstrip :: "string \<Rightarrow> string" where
  "lstrip s = dropWhile isspace s"

definition rstrip :: "string \<Rightarrow> string" where
  "rstrip s = rev (dropWhile isspace (rev s))"

definition strip :: "string \<Rightarrow> string" where
  "strip s = rstrip (lstrip s)"

text \<open>\<open>s.split(sep)\<close> for a one-character separator: never an empty list.\<close>

fun split_on :: "char \<Rightarrow> string \<Rightarrow> string list" where
  "split_on sep [] = [[]]"
| "split_on sep (c # cs) =
     (if c = sep then [] # split_on sep cs
      else (case split_on sep cs of
              [] \<Rightarrow> [[c]]
            | w # ws \<Rightarrow> (c # w) # ws))"

text \<open>
  \<open>s.split()\<close> with no separator: the maximal runs of non-whitespace, in order.
  \<open>cur\<close> is the word being read.
\<close>

fun split_ws_from :: "string \<Rightarrow> string \<Rightarrow> string list" where
  "split_ws_from cur [] = (if cur = [] then [] else [cur])"
| "split_ws_from cur (c # cs) =
     (if isspace c
      then (if cur = [] then split_ws_from [] cs else cur # split_ws_from [] cs)
      else split_ws_from (cur @ [c]) cs)"

definition split_ws :: "string \<Rightarrow> string list" where
  "split_ws s = split_ws_from [] s"

text \<open>\<open>sep.join(words)\<close>.\<close>

fun join :: "string \<Rightarrow> string list \<Rightarrow> string" where
  "join sep [] = []"
| "join sep [w] = w"
| "join sep (w # v # ws) = w @ sep @ join sep (v # ws)"

text \<open>\<open>sub in s\<close>: \<open>sub\<close> occurs in \<open>s\<close> as a contiguous run.\<close>

fun contains :: "string \<Rightarrow> string \<Rightarrow> bool" where
  "contains sub [] = (sub = [])"
| "contains sub (c # cs) = (prefix sub (c # cs) \<or> contains sub cs)"

section \<open>The regular expressions of \<open>clean_fund_name\<close>\<close>

text \<open>
  The patterns are \<open>\s*-\s*Direct.*$\<close> and its five siblings, all compiled with
  \<open>re.IGNORECASE\<close>. They are sequences of four kinds of item: a greedy \<open>\s*\<close>, a
  literal character (matched without regard to case), a greedy \<open>.*\<close> (any character
  but a line feed) and the anchor \<open>$\<close> (the end of the string, or just before a line
  feed that ends it). \<open>rmatch p s\<close> matches \<open>p\<close> at the start of \<open>s\<close> the way a
  backtracking matcher does, longest repetition first, and returns what is left of
  \<open>s\<close> after the match.
\<close>

datatype tok = SpaceStar | Lit char | DotStar | EndAnchor

fun rmatch :: "tok list \<Rightarrow> string \<Rightarrow> string option" where
  "rmatch [] s = Some s"
| "rmatch (Lit c # p) [] = None"
| "rmatch (Lit c # p) (x # xs) =
     (if lower_char x = lower_char c then rmatch p xs else None)"
| "rmatch (SpaceStar # p) [] = rmatch p []"
| "rmatch (SpaceStar # p) (x # xs) =
     (if isspace x
      then (case rmatch (SpaceStar # p) xs of
              Some r \<Rightarrow> Some r
            | None \<Rightarrow> rmatch p (x # xs))
      else rmatch p (x # xs))"
| "rmatch (DotStar # p) [] = rmatch p []"
| "rmatch (DotStar # p) (x # xs) =
     (if x \<noteq> newline
      then (case rmatch (DotStar # p) xs of
              Some r \<Rightarrow> Some r
            | None \<Rightarrow> rmatch p (x # xs))
      else rmatch p (x # xs))"
| "rmatch (EndAnchor # p) s =
     (if s = [] \<or> s = [newline] then rmatch p s else None)"

text \<open>
  \<open>re.sub(p, '', s)\<close>: every non-overlapping match, leftmost first, is removed. After
  a match the search goes on in what follows it; where nothing (or only the empty
  string) matches, the character is kept and the search moves one step on.
\<close>

function re_sub :: "tok list \<Rightarrow> string \<Rightarrow> string" where
  "re_sub p s =
     (case rmatch p s of
        Some r \<Rightarrow>
          if length r < length s then re_sub p r
          else (case s of [] \<Rightarrow> [] | c # cs \<Rightarrow> c # re_sub p cs)
      | None \<Rightarrow> (case s of [] \<Rightarrow> [] | c # cs \<Rightarrow> c # re_sub p cs))"
  by pat_completeness auto
termination
  by (relation "measure (\<lambda>(p, s). length s)") auto

declare re_sub.simps [simp del]

definition plan_clause :: "string \<Rightarrow> tok list" where
  "plan_clause w = [SpaceStar, Lit CHR ''-'', SpaceStar] @ map Lit w @ [DotStar, EndAnchor]"

section \<open>Feed Parser (\<open>fetch-fund-data-CLEAN.py\<close>)\<close>

definition clean_fund_name :: "string \<Rightarrow> string" where
  "clean_fund_name name0 =
     (let name1 = re_sub (plan_clause ''Direct'') name0;
          name2 = re_sub (plan_clause ''DIRECT'') name1;
          name3 = re_sub (plan_clause ''Regular'') name2;
          name4 = re_sub (plan_clause ''REGULAR'') name3;
          name5 = re_sub (plan_clause ''Growth'') name4;
          name6 = re_sub (plan_clause ''GROWTH'') name5;
          name7 = join '' '' (split_ws name6)
      in strip name7)"

definition sectors :: "string list" where
  "sectors = [''infrastructure'', ''banking'', ''technology'', ''healthcare'', ''defence'',
              ''psu'', ''manufacturing'', ''pharma'', ''auto'', ''energy'']"

definition determine_category :: "string \<Rightarrow> string" where
  "determine_category fund_name =
     (let name_lower = lower fund_name in
      if contains ''elss'' name_lower \<or> contains ''tax saver'' name_lower
        then ''Equity - ELSS''
      else if contains ''flexi cap'' name_lower
        then ''Equity - Flexi Cap''
      else if contains ''large cap'' name_lower \<or> contains ''bluechip'' name_lower
              \<or> contains ''blue chip'' name_lower
        then ''Equity - Large Cap''
      else if contains ''mid cap'' name_lower \<or> contains ''midcap'' name_lower
        then ''Equity - Mid Cap''
      else if contains ''small cap'' name_lower \<or> contains ''smallcap'' name_lower
        then ''Equity - Small Cap''
      else if contains ''index'' name_lower
        then ''Equity - Index''
      else if contains ''fof'' name_lower \<or> contains ''fund of funds'' name_lower
        then ''Fund of Funds''
      else if contains ''liquid'' name_lower
        then ''Debt - Liquid''
      else if contains ''balanced'' name_lower \<or> contains ''hybrid'' name_lower
              \<or> contains ''advantage'' name_lower
        then ''Hybrid''
      else if contains ''debt'' name_lower \<or> contains ''bond'' name_lower
        then ''Debt''
      else if contains ''money market'' name_lower
        then ''Debt - Money Market''
      else if list_ex (\<lambda>sector. contains sector name_lower) sectors
        then ''Equity - Sectoral''
      else ''Other'')"

text \<open>
  The sibling script \<open>update-fund-data-ACTUALLY-FIXED.py\<close> has the same rule chain
  with a shorter sector list, and classifies the cleaned name.
\<close>

definition sectors_fixed :: "string list" where
  "sectors_fixed = [''infrastructure'', ''banking'', ''technology'', ''healthcare'',
                    ''defence'', ''psu'', ''manufacturing'']"

definition determine_category_fixed :: "string \<Rightarrow> string" where
  "determine_category_fixed fund_name =
     (let name_lower = lower fund_name in
      if contains ''elss'' name_lower \<or> contains ''tax saver'' name_lower
        then ''Equity - ELSS''
      else if contains ''flexi cap'' name_lower
        then ''Equity - Flexi Cap''
      else if contains ''large cap'' name_lower \<or> contains ''bluechip'' name_lower
              \<or> contains ''blue chip'' name_lower
        then ''Equity - Large Cap''
      else if contains ''mid cap'' name_lower \<or> contains ''midcap'' name_lower
        then ''Equity - Mid Cap''
      else if contains ''small cap'' name_lower \<or> contains ''smallcap'' name_lower
        then ''Equity - Small Cap''
      else if contains ''index'' name_lower
        then ''Equity - Index''
      else if contains ''fof'' name_lower \<or> contains ''fund of funds'' name_lower
        then ''Fund of Funds''
      else if contains ''liquid'' name_lower
        then ''Debt - Liquid''
      else if contains ''balanced'' name_lower \<or> contains ''hybrid'' name_lower
              \<or> contains ''advantage'' name_lower
        then ''Hybrid''
      else if contains ''debt'' name_lower \<or> contains ''bond'' name_lower
        then ''Debt''
      else if contains ''money market'' name_lower
        then ''Debt - Money Market''
      else if list_ex (\<lambda>sector. contains sector name_lower) sectors_fixed
        then ''Equity - Sectoral''
      else ''Other'')"

subsection \<open>Fund records and the catalog\<close>

text \<open>
  Python's \<open>float\<close> values are binary64; the model computes with exact rationals.
  The built-in \<open>float(s)\<close> is a parameter \<open>pyfloat\<close> of the functions that call it:
  \<open>None\<close> stands for its \<open>ValueError\<close>. The fields of a fund record carry the
  prefix \<open>f_\<close> before their dictionary key. The wall-clock stamps the scripts store
  (\<open>last_updated\<close>, \<open>timestamp\<close>, \<open>completion_date\<close>) are left out of the records.
\<close>

datatype py_error = IndexError | ValueError | ZeroDivisionError | RequestError | FileError

record returns_t =
  year1 :: "rat option"
  year3 :: "rat option"
  year5 :: "rat option"

record fund =
  f_name :: string
  f_amc :: "string option"
  f_scheme_code :: "string option"
  f_nav :: "rat option"
  f_nav_date :: string
  f_category :: string
  f_returns :: returns_t
  f_benchmark_name :: string
  f_benchmark_1year :: "rat option"
  f_source :: string

text \<open>
  The catalog \<open>funds_data\<close> is a \<open>dict\<close>: an association list in insertion order,
  a key added at the end when it is new. \<open>current_amc\<close> and \<open>fund_count\<close> are the
  locals of \<open>fetch_amfi_nav_data\<close>.
\<close>

record parser =
  funds_data :: "(string \<times> fund) list"
  errors :: "py_error list"
  current_amc :: "string option"
  fund_count :: nat

datatype variant = CLEAN | ACTUALLY_FIXED

definition py_index :: "'a list \<Rightarrow> nat \<Rightarrow> py_error + 'a" where
  "py_index xs i = (if i < length xs then Inr (xs ! i) else Inl IndexError)"

definition bind_err :: "py_error + 'a \<Rightarrow> ('a \<Rightarrow> py_error + 'b) \<Rightarrow> py_error + 'b" where
  "bind_err m f = (case m of Inl e \<Rightarrow> Inl e | Inr x \<Rightarrow> f x)"

definition category_of :: "variant \<Rightarrow> string \<Rightarrow> string \<Rightarrow> string" where
  "category_of v scheme_name clean_name =
     (case v of
        CLEAN \<Rightarrow> determine_category scheme_name
      | ACTUALLY_FIXED \<Rightarrow> determine_category_fixed clean_name)"

definition make_fund ::
  "variant \<Rightarrow> (string \<Rightarrow> rat option) \<Rightarrow> string option \<Rightarrow> string \<Rightarrow> string \<Rightarrow> string \<Rightarrow> string \<Rightarrow> fund" where
  "make_fund v pyfloat cur_amc scheme_code scheme_name nav_str nav_date =
     \<lparr> f_name = scheme_name,
       f_amc = cur_amc,
       f_scheme_code = Some scheme_code,
       f_nav = (if nav_str \<noteq> [] then pyfloat nav_str else None),
       f_nav_date = nav_date,
       f_category = category_of v scheme_name (clean_fund_name scheme_name),
       f_returns = \<lparr> year1 = None, year3 = None, year5 = None \<rparr>,
       f_benchmark_name = ''N/A'',
       f_benchmark_1year = None,
       f_source = ''AMFI India'' \<rparr>"

text \<open>Lines 61 to 88: what the loop body does with the four extracted fields.\<close>

definition add_fund ::
  "variant \<Rightarrow> (string \<Rightarrow> rat option) \<Rightarrow> parser \<Rightarrow> string \<Rightarrow> string \<Rightarrow> string \<Rightarrow> string \<Rightarrow> parser" where
  "add_fund v pyfloat st scheme_code scheme_name nav_str nav_date =
     (if scheme_name = [] \<or> scheme_code = [] then st
      else
        let clean_name = clean_fund_name scheme_name in
        if clean_name \<notin> set (map fst (funds_data st))
        then st \<lparr> funds_data := funds_data st @
                     [(clean_name,
                       make_fund v pyfloat (current_amc st) scheme_code scheme_name nav_str nav_date)],
                  fund_count := fund_count st + 1 \<rparr>
        else st)"

definition is_header :: "string \<Rightarrow> bool" where
  "is_header line = (case line of [] \<Rightarrow> False | c # _ \<Rightarrow> \<not> isdigit c)"

text \<open>One pass of the \<open>for line in lines\<close> loop; \<open>Inl\<close> is an exception leaving it.\<close>

definition process_line ::
  "variant \<Rightarrow> (string \<Rightarrow> rat option) \<Rightarrow> parser \<Rightarrow> string \<Rightarrow> py_error + parser" where
  "process_line v pyfloat st raw =
     (let line = strip raw in
      if is_header line then Inr (st \<lparr> current_amc := Some line \<rparr>)
      else if CHR '';'' \<in> set line then
        (let parts = split_on CHR '';'' line in
         if 6 \<le> length parts then
           bind_err (py_index parts 0) (\<lambda>p0.
           bind_err (py_index parts 3) (\<lambda>p3.
           bind_err (py_index parts 4) (\<lambda>p4.
           bind_err (py_index parts 5) (\<lambda>p5.
             Inr (add_fund v pyfloat st (strip p0) (strip p3) (strip p4) (strip p5))))))
         else Inr st)
      else Inr st)"

fun run_lines ::
  "variant \<Rightarrow> (string \<Rightarrow> rat option) \<Rightarrow> parser \<Rightarrow> string list \<Rightarrow> py_error option \<times> parser" where
  "run_lines v pyfloat st [] = (None, st)"
| "run_lines v pyfloat st (l # ls) =
     (case process_line v pyfloat st l of
        Inl e \<Rightarrow> (Some e, st)
      | Inr st' \<Rightarrow> run_lines v pyfloat st' ls)"

text \<open>
  \<open>response\<close> is what \<open>requests.get\<close> and \<open>raise_for_status\<close> give: the body text, or
  the exception. Any exception lands in the \<open>except\<close> clause: it is recorded and the
  function returns \<open>False\<close>.
\<close>

definition fetch_amfi_nav_data ::
  "variant \<Rightarrow> (string \<Rightarrow> rat option) \<Rightarrow> py_error + string \<Rightarrow> parser \<Rightarrow> bool \<times> parser" where
  "fetch_amfi_nav_data v pyfloat response self =
     (case response of
        Inl e \<Rightarrow> (False, self \<lparr> errors := errors self @ [e] \<rparr>)
      | Inr text \<Rightarrow>
          (case run_lines v pyfloat (self \<lparr> current_amc := None, fund_count := 0 \<rparr>)
                  (split_on newline text) of
             (Some e, st) \<Rightarrow> (False, st \<lparr> errors := errors st @ [e] \<rparr>)
           | (None, st) \<Rightarrow> (True, st)))"

section \<open>Return Enricher (\<open>enrich-with-mfapi.py\<close>)\<close>

subsection \<open>Dates and the return calculation\<close>

text \<open>
  A \<open>datetime\<close> is a day number and the time within the day; \<open>timedelta(days=n)\<close>
  moves the day number. \<open>datetime.strptime(s, '%d-%m-%Y')\<close> is the parameter
  \<open>strptime\<close>, \<open>None\<close> for its \<open>ValueError\<close>. \<open>now days\<close> is what \<open>datetime.now()\<close>
  reads in the call \<open>get_nav_n_days_ago(days)\<close>.
\<close>

record datetime =
  ordinal :: int
  time_of_day :: nat

definition dt_le :: "datetime \<Rightarrow> datetime \<Rightarrow> bool" where
  "dt_le a b =
     (ordinal a < ordinal b \<or> (ordinal a = ordinal b \<and> time_of_day a \<le> time_of_day b))"

definition minus_days :: "datetime \<Rightarrow> nat \<Rightarrow> datetime" where
  "minus_days d n = d \<lparr> ordinal := ordinal d - int n \<rparr>"

record nav_entry =
  e_date :: string
  e_nav :: string

text \<open>
  The body of the inner \<open>try\<close>: \<open>Inr (Some v)\<close> returns \<open>v\<close> from the helper,
  \<open>Inr None\<close> falls through to the next entry, \<open>Inl\<close> is an exception.
\<close>

definition entry_try ::
  "(string \<Rightarrow> datetime option) \<Rightarrow> (string \<Rightarrow> rat option) \<Rightarrow> datetime \<Rightarrow> nav_entry
     \<Rightarrow> py_error + rat option" where
  "entry_try strptime pyfloat target_date nav_entry =
     (case strptime (e_date nav_entry) of
        None \<Rightarrow> Inl ValueError
      | Some nav_date \<Rightarrow>
          if dt_le nav_date target_date
          then (case pyfloat (e_nav nav_entry) of
                  None \<Rightarrow> Inl ValueError
                | Some v \<Rightarrow> Inr (Some v))
          else Inr None)"

fun scan_history ::
  "(string \<Rightarrow> datetime option) \<Rightarrow> (string \<Rightarrow> rat option) \<Rightarrow> datetime \<Rightarrow> nav_entry list
     \<Rightarrow> rat option" where
  "scan_history strptime pyfloat target_date [] = None"
| "scan_history strptime pyfloat target_date (nav_entry # rest) =
     (case entry_try strptime pyfloat target_date nav_entry of
        Inl e \<Rightarrow> scan_history strptime pyfloat target_date rest
      | Inr None \<Rightarrow> scan_history strptime pyfloat target_date rest
      | Inr (Some v) \<Rightarrow> Some v)"

definition get_nav_n_days_ago ::
  "(string \<Rightarrow> datetime option) \<Rightarrow> (string \<Rightarrow> rat option) \<Rightarrow> (nat \<Rightarrow> datetime) \<Rightarrow> nav_entry list
     \<Rightarrow> nat \<Rightarrow> rat option" where
  "get_nav_n_days_ago strptime pyfloat now nav_history days =
     scan_history strptime pyfloat (minus_days (now days) days) nav_history"

definition py_truediv :: "rat \<Rightarrow> rat \<Rightarrow> py_error + rat" where
  "py_truediv a b = (if b = 0 then Inl ZeroDivisionError else Inr (a / b))"

text \<open>\<open>round(x, 2)\<close>: to the nearest hundredth, a tie going to the even one.\<close>

definition round_half_even :: "rat \<Rightarrow> int" where
  "round_half_even y =
     (let f = \<lfloor>y\<rfloor>; d = y - of_int f
      in if d < 1 / 2 then f
         else if 1 / 2 < d then f + 1
         else if even f then f else f + 1)"

definition round2 :: "rat \<Rightarrow> rat" where
  "round2 x = of_int (round_half_even (x * 100)) / 100"

text \<open>
  \<open>if nav_1y: returns['1year'] = round(((current_nav - nav_1y) / nav_1y) * 100, 2)\<close>:
  \<open>None\<close> and \<open>0.0\<close> are both false.
\<close>

definition horizon_return :: "rat \<Rightarrow> rat option \<Rightarrow> py_error + rat option" where
  "horizon_return current_nav past =
     (case past of
        None \<Rightarrow> Inr None
      | Some nav_past \<Rightarrow>
          if nav_past = 0 then Inr None
          else bind_err (py_truediv (current_nav - nav_past) nav_past)
                 (\<lambda>q. Inr (Some (round2 (q * 100)))))"

text \<open>The body of the outer \<open>try\<close> of \<open>calculate_returns\<close>.\<close>

definition calculate_returns_body ::
  "(string \<Rightarrow> datetime option) \<Rightarrow> (string \<Rightarrow> rat option) \<Rightarrow> (nat \<Rightarrow> datetime) \<Rightarrow> nav_entry list
     \<Rightarrow> py_error + returns_t option" where
  "calculate_returns_body strptime pyfloat now nav_history =
     (if nav_history = [] \<or> length nav_history < 2 then Inr None
      else
        bind_err (py_index nav_history 0) (\<lambda>head.
        bind_err (case pyfloat (e_nav head) of None \<Rightarrow> Inl ValueError | Some v \<Rightarrow> Inr v)
          (\<lambda>current_nav.
        bind_err (horizon_return current_nav
                    (get_nav_n_days_ago strptime pyfloat now nav_history 365)) (\<lambda>r1.
        bind_err (horizon_return current_nav
                    (get_nav_n_days_ago strptime pyfloat now nav_history 1095)) (\<lambda>r3.
        bind_err (horizon_return current_nav
                    (get_nav_n_days_ago strptime pyfloat now nav_history 1825)) (\<lambda>r5.
          Inr (Some \<lparr> year1 = r1, year3 = r3, year5 = r5 \<rparr>)))))))"

definition calculate_returns ::
  "(string \<Rightarrow> datetime option) \<Rightarrow> (string \<Rightarrow> rat option) \<Rightarrow> (nat \<Rightarrow> datetime) \<Rightarrow> nav_entry list
     \<Rightarrow> returns_t option" where
  "calculate_returns strptime pyfloat now nav_history =
     (case calculate_returns_body strptime pyfloat now nav_history of
        Inl e \<Rightarrow> None
      | Inr r \<Rightarrow> r)"

text \<open>What the caller reads for one horizon: absent when there is no result at all.\<close>

definition return_1year :: "returns_t option \<Rightarrow> rat option" where
  "return_1year r = (case r of None \<Rightarrow> None | Some d \<Rightarrow> year1 d)"

definition return_3year :: "returns_t option \<Rightarrow> rat option" where
  "return_3year r = (case r of None \<Rightarrow> None | Some d \<Rightarrow> year3 d)"

definition return_5year :: "returns_t option \<Rightarrow> rat option" where
  "return_5year r = (case r of None \<Rightarrow> None | Some d \<Rightarrow> year5 d)"

subsection \<open>The batch, its checkpoint and its files\<close>

text \<open>
  The JSON document the batch works on: the catalog, and the three fields the
  enricher adds or removes (\<open>None\<close> for a key that is not there).
\<close>

record progress =
  last_index :: nat
  p_successful :: nat
  p_failed :: nat

record stats =
  total_funds :: nat
  enriched :: nat
  s_failed :: nat

record data =
  d_funds :: "(string \<times> fund) list"
  enrichment_progress :: "progress option"
  enrichment_complete :: "bool option"
  enrichment_stats :: "stats option"

text \<open>
  The enricher object, with the two files it writes: \<open>output_file\<close> is the content
  of \<open>funds-data-enriched.json\<close> and \<open>errors_file\<close> that of
  \<open>enrichment-errors.json\<close> (\<open>None\<close> while the file does not exist). \<open>printed\<close>
  collects the position \<open>i + 1\<close> of every progress line the loop prints.
\<close>

record enricher =
  successful :: nat
  failed :: nat
  fetch_errors :: "(string \<times> string) list"
  output_file :: "data option"
  errors_file :: "(string \<times> string) list option"
  printed :: "nat list"

text \<open>
  The answer of \<open>requests.get\<close> for one scheme code: an exception, or a status code
  with the body (not JSON, JSON without \<open>data\<close>, or the \<open>data\<close> list).
\<close>

datatype body = Unparseable | NoData | Data "nav_entry list"

datatype api_response = NoResponse | Response nat body

definition get_fund_data_from_mfapi :: "api_response \<Rightarrow> nav_entry list option" where
  "get_fund_data_from_mfapi r =
     (case r of
        NoResponse \<Rightarrow> None
      | Response status_code b \<Rightarrow>
          if status_code = 200
          then (case b of
                  Data d \<Rightarrow> if 0 < length d then Some d else None
                | NoData \<Rightarrow> None
                | Unparseable \<Rightarrow> None)
          else None)"

text \<open>
  The surroundings of one run: the two library parsers, the clock reading for each
  position and horizon, the service's answer for each position and scheme code, and
  the moment a \<open>KeyboardInterrupt\<close> arrives, if one does: while position \<open>i\<close> is
  waiting for the service, or while it sleeps after its request.
\<close>

datatype phase = DuringFetch | DuringSleep

record env =
  strptime_of :: "string \<Rightarrow> datetime option"
  pyfloat_of :: "string \<Rightarrow> rat option"
  clock_of :: "nat \<Rightarrow> nat \<Rightarrow> datetime"
  mfapi_of :: "nat \<Rightarrow> string \<Rightarrow> api_response"
  interrupt_of :: "(nat \<times> phase) option"

definition save_progress :: "enricher \<Rightarrow> data \<Rightarrow> nat \<Rightarrow> enricher \<times> data" where
  "save_progress self d current_index =
     (let d' = d \<lparr> enrichment_progress :=
                     Some \<lparr> last_index = current_index,
                            p_successful = successful self,
                            p_failed = failed self \<rparr> \<rparr>
      in (self \<lparr> output_file := Some d' \<rparr>, d'))"

definition save_final :: "enricher \<Rightarrow> data \<Rightarrow> enricher \<times> data" where
  "save_final self d =
     (let d' = d \<lparr> enrichment_complete := Some True,
                    enrichment_stats :=
                      Some \<lparr> total_funds = length (d_funds d),
                             enriched = successful self,
                             s_failed = failed self \<rparr>,
                    enrichment_progress := None \<rparr>
      in (self \<lparr> output_file := Some d' \<rparr>, d'))"

text \<open>\<open>data['funds'][fund_key]['returns'] = returns\<close>.\<close>

definition set_returns :: "string \<Rightarrow> returns_t \<Rightarrow> data \<Rightarrow> data" where
  "set_returns fund_key r d =
     d \<lparr> d_funds := map (\<lambda>(k, f). if k = fund_key then (k, f \<lparr> f_returns := r \<rparr>) else (k, f))
                         (d_funds d) \<rparr>"

text \<open>\<open>if not scheme_code\<close>: the key is missing, \<open>None\<close> or the empty string.\<close>

definition no_scheme_code :: "fund \<Rightarrow> bool" where
  "no_scheme_code fund_info =
     (case f_scheme_code fund_info of None \<Rightarrow> True | Some c \<Rightarrow> c = [])"

text \<open>
  Lines 136 to 164 for position \<open>i\<close>: the request, the calculation and the counters.
\<close>

definition fetch_and_count ::
  "env \<Rightarrow> nat \<Rightarrow> string \<Rightarrow> fund \<Rightarrow> enricher \<times> data \<Rightarrow> enricher \<times> data" where
  "fetch_and_count e i fund_key fund_info sd =
     (let self = fst sd; d = snd sd;
          code = (case f_scheme_code fund_info of None \<Rightarrow> [] | Some c \<Rightarrow> c)
      in case get_fund_data_from_mfapi (mfapi_of e i code) of
           Some nav_history \<Rightarrow>
             (case calculate_returns (strptime_of e) (pyfloat_of e) (clock_of e i) nav_history of
                Some r \<Rightarrow> (self \<lparr> successful := successful self + 1 \<rparr>, set_returns fund_key r d)
              | None \<Rightarrow> (self \<lparr> failed := failed self + 1 \<rparr>, d))
         | None \<Rightarrow>
             (self \<lparr> failed := failed self + 1,
                     fetch_errors := fetch_errors self @ [(f_name fund_info, code)] \<rparr>, d))"

text \<open>
  One pass of the loop at position \<open>i\<close>. The flag of the result is \<open>True\<close> when a
  \<open>KeyboardInterrupt\<close> leaves the loop in this pass.
\<close>

definition enrich_step ::
  "env \<Rightarrow> nat \<Rightarrow> string \<times> fund \<Rightarrow> enricher \<times> data \<Rightarrow> bool \<times> enricher \<times> data" where
  "enrich_step e i item sd =
     (let fund_key = fst item; fund_info = snd item;
          self1 = (fst sd) \<lparr> printed := printed (fst sd) @ [i + 1] \<rparr>;
          d = snd sd
      in if no_scheme_code fund_info
         then (False, self1 \<lparr> failed := failed self1 + 1 \<rparr>, d)
         else if interrupt_of e = Some (i, DuringFetch) then (True, self1, d)
         else
           (let sd2 = fetch_and_count e i fund_key fund_info (self1, d)
            in if interrupt_of e = Some (i, DuringSleep) then (True, sd2)
               else if (i + 1) mod 50 = 0
                 then (False, save_progress (fst sd2) (snd sd2) (i + 1))
               else (False, sd2)))"

text \<open>\<open>for i in range(start_from, total_funds)\<close>, over the entries from \<open>i\<close> on.\<close>

fun enrich_loop ::
  "env \<Rightarrow> nat \<Rightarrow> (string \<times> fund) list \<Rightarrow> enricher \<times> data \<Rightarrow> bool \<times> enricher \<times> data" where
  "enrich_loop e i [] sd = (False, sd)"
| "enrich_loop e i (item # items) sd =
     (case enrich_step e i item sd of
        (True, sd') \<Rightarrow> (True, sd')
      | (False, sd') \<Rightarrow> enrich_loop e (i + 1) items sd')"

datatype outcome = Completed | Interrupted | Crashed py_error

text \<open>
  \<open>enrich_funds\<close>: the input file is read (\<open>None\<close>: it cannot be), the loop runs
  from \<open>start_from\<close>, and after it the summary is printed, which divides by the
  number of funds, before \<open>save_final\<close> and the error log.
\<close>

definition enrich_funds ::
  "env \<Rightarrow> data option \<Rightarrow> enricher \<Rightarrow> nat \<Rightarrow> outcome \<times> enricher" where
  "enrich_funds e input_file self start_from =
     (case input_file of
        None \<Rightarrow> (Crashed FileError, self)
      | Some d \<Rightarrow>
          (let funds = d_funds d; total = length funds
           in case enrich_loop e start_from (drop start_from funds) (self, d) of
                (True, self', d') \<Rightarrow> (Interrupted, self')
              | (False, self', d') \<Rightarrow>
                  if total = 0 then (Crashed ZeroDivisionError, self')
                  else
                    (let self'' = fst (save_final self' d')
                     in (Completed,
                         if fetch_errors self'' \<noteq> []
                         then self'' \<lparr> errors_file := Some (fetch_errors self'') \<rparr>
                         else self''))))"

text \<open>
  \<open>resume_from_progress\<close>: \<open>answer\<close> is what the user types at the prompt. Every
  failure inside (no output file, for one) is swallowed and gives 0.
\<close>

definition resume_from_progress :: "enricher \<Rightarrow> string \<Rightarrow> nat \<times> enricher" where
  "resume_from_progress self answer =
     (case output_file self of
        None \<Rightarrow> (0, self)
      | Some d \<Rightarrow>
          (case enrichment_progress d of
             None \<Rightarrow> (0, self)
           | Some p \<Rightarrow>
               if lower answer = ''yes''
               then (last_index p,
                     self \<lparr> successful := p_successful p, failed := p_failed p \<rparr>)
               else (0, self)))"

text \<open>
  The main program after the first prompt: resume, then the batch. The handler of
  \<open>KeyboardInterrupt\<close> prints and exits with code 0; that of any other exception
  prints and exits with code 1. Neither writes a file.
\<close>

definition main :: "env \<Rightarrow> data option \<Rightarrow> enricher \<Rightarrow> string \<Rightarrow> nat \<times> enricher" where
  "main e input_file enricher0 answer =
     (let (start_index, enricher1) = resume_from_progress enricher0 answer
      in case enrich_funds e input_file enricher1 start_index of
           (Completed, self) \<Rightarrow> (0, self)
         | (Interrupted, self) \<Rightarrow> (0, self)
         | (Crashed err, self) \<Rightarrow> (1, self))"

definition new_enricher :: "data option \<Rightarrow> enricher" where
  "new_enricher on_disk =
     \<lparr> successful = 0, failed = 0, fetch_errors = [], output_file = on_disk,
       errors_file = None, printed = [] \<rparr>"

section \<open>Vocabulary of the properties\<close>

text \<open>A fetcher as \<open>__init__\<close> leaves it, at the start of \<open>fetch_amfi_nav_data\<close>.\<close>

definition new_parser :: parser where
  "new_parser = \<lparr> funds_data = [], errors = [], current_amc = None, fund_count = 0 \<rparr>"

text \<open>
  The four fields a line yields when the loop body reaches the extraction: the line is
  not taken for a section header and has six fields or more.
\<close>

definition line_fields :: "string \<Rightarrow> (string \<times> string \<times> string \<times> string) option" where
  "line_fields raw =
     (let line = strip raw; parts = split_on CHR '';'' line in
      if \<not> is_header line \<and> 6 \<le> length parts
      then Some (strip (parts ! 0), strip (parts ! 3), strip (parts ! 4), strip (parts ! 5))
      else None)"

text \<open>The catalog key a line stands for, if it stands for a record at all.\<close>

definition line_key :: "string \<Rightarrow> string option" where
  "line_key raw =
     (case line_fields raw of
        None \<Rightarrow> None
      | Some (code, nm, nav_str, dt) \<Rightarrow>
          if nm = [] \<or> code = [] then None else Some (clean_fund_name nm))"

text \<open>
  Sample values of the two library parsers, enough for the examples below: the
  decimal strings and the day-month-year dates that occur in them (the day number is
  the proleptic Gregorian ordinal, the time is midnight).
\<close>

definition sample_pyfloat :: "string \<Rightarrow> rat option" where
  "sample_pyfloat s =
     (if s = ''120.0'' then Some 120
      else if s = ''100.0'' then Some 100
      else if s = ''0.0'' then Some 0
      else if s = ''58.12'' then Some (5812 / 100)
      else if s = ''61.40'' then Some (6140 / 100)
      else None)"

definition sample_strptime :: "string \<Rightarrow> datetime option" where
  "sample_strptime s =
     (if s = ''04-11-2026'' then Some \<lparr> ordinal = 739924, time_of_day = 0 \<rparr>
      else if s = ''03-11-2025'' then Some \<lparr> ordinal = 739558, time_of_day = 0 \<rparr>
      else if s = ''30-09-2025'' then Some \<lparr> ordinal = 739524, time_of_day = 0 \<rparr>
      else if s = ''29-09-2025'' then Some \<lparr> ordinal = 739523, time_of_day = 0 \<rparr>
      else None)"

text \<open>A clock that reads 4 November 2026, 10:00, at every call.\<close>

definition sample_now :: "nat \<Rightarrow> datetime" where
  "sample_now days = \<lparr> ordinal = 739924, time_of_day = 36000000000 \<rparr>"

text \<open>
  The entry of a result for the horizon of \<open>days\<close> days (365, 1095 or 1825).
\<close>

definition return_for :: "nat \<Rightarrow> returns_t option \<Rightarrow> rat option" where
  "return_for days r =
     (if days = 365 then return_1year r
      else if days = 1095 then return_3year r
      else if days = 1825 then return_5year r
      else None)"

text \<open>
  A point at or before the cutoff: its date parses and is not later than the target
  date. \<open>first_at_or_before\<close> is the first such point of a history, and
  \<open>after_first\<close> the points that follow it.
\<close>

definition at_or_before :: "(string \<Rightarrow> datetime option) \<Rightarrow> datetime \<Rightarrow> nav_entry \<Rightarrow> bool" where
  "at_or_before sp target_date nav_entry =
     (case sp (e_date nav_entry) of None \<Rightarrow> False | Some d \<Rightarrow> dt_le d target_date)"

definition first_at_or_before ::
  "(string \<Rightarrow> datetime option) \<Rightarrow> datetime \<Rightarrow> nav_entry list \<Rightarrow> nav_entry option" where
  "first_at_or_before sp target_date h = find (at_or_before sp target_date) h"

definition after_first ::
  "(string \<Rightarrow> datetime option) \<Rightarrow> datetime \<Rightarrow> nav_entry list \<Rightarrow> nav_entry list" where
  "after_first sp target_date h = tl (dropWhile (\<lambda>x. \<not> at_or_before sp target_date x) h)"

text \<open>
  The outcome of position \<open>i\<close> as the loop body counts it: a success when the record
  has a scheme code, the service answers with a history and the calculation gives a
  result; a failure otherwise. \<open>successes\<close> and \<open>failures\<close> count them over the
  entries from position \<open>i\<close> on.
\<close>

definition succeeds :: "env \<Rightarrow> nat \<Rightarrow> fund \<Rightarrow> bool" where
  "succeeds e i fund_info =
     (if no_scheme_code fund_info then False
      else case get_fund_data_from_mfapi
                  (mfapi_of e i (case f_scheme_code fund_info of None \<Rightarrow> [] | Some c \<Rightarrow> c)) of
             None \<Rightarrow> False
           | Some nav_history \<Rightarrow>
               calculate_returns (strptime_of e) (pyfloat_of e) (clock_of e i) nav_history \<noteq> None)"

fun successes :: "env \<Rightarrow> nat \<Rightarrow> (string \<times> fund) list \<Rightarrow> nat" where
  "successes e i [] = 0"
| "successes e i (item # items) =
     (if succeeds e i (snd item) then 1 else 0) + successes e (i + 1) items"

fun failures :: "env \<Rightarrow> nat \<Rightarrow> (string \<times> fund) list \<Rightarrow> nat" where
  "failures e i [] = 0"
| "failures e i (item # items) =
     (if succeeds e i (snd item) then 0 else 1) + failures e (i + 1) items"

text \<open>
  A sample run: the service knows the scheme code 119551 and no other, the catalog
  has 52 entries of which the last two carry real codes, and the enriched file on disk
  is a checkpoint at position 50.
\<close>

definition sample_mfapi :: "nat \<Rightarrow> string \<Rightarrow> api_response" where
  "sample_mfapi i code =
     (if code = ''119551''
      then Response 200 (Data [\<lparr> e_date = ''04-11-2026'', e_nav = ''120.0'' \<rparr>,
                               \<lparr> e_date = ''03-11-2025'', e_nav = ''100.0'' \<rparr>])
      else NoResponse)"

definition sample_env :: "(nat \<times> phase) option \<Rightarrow> env" where
  "sample_env intr =
     \<lparr> strptime_of = sample_strptime, pyfloat_of = sample_pyfloat,
       clock_of = (\<lambda>i. sample_now), mfapi_of = sample_mfapi, interrupt_of = intr \<rparr>"

definition sample_fund :: "string \<Rightarrow> string \<Rightarrow> fund" where
  "sample_fund nm code =
     \<lparr> f_name = nm, f_amc = Some ''Example AMC'', f_scheme_code = Some code,
       f_nav = Some 120, f_nav_date = ''04-Nov-2026'', f_category = ''Other'',
       f_returns = \<lparr> year1 = None, year3 = None, year5 = None \<rparr>,
       f_benchmark_name = ''N/A'', f_benchmark_1year = None, f_source = ''AMFI India'' \<rparr>"

definition sample_tail :: "(string \<times> fund) list" where
  "sample_tail = [(''Fund A'', sample_fund ''Fund A - Direct'' ''119551''),
                  (''Fund B'', sample_fund ''Fund B - Direct'' ''119552'')]"

definition sample_catalog :: data where
  "sample_catalog =
     \<lparr> d_funds = map (\<lambda>i. (replicate (Suc i) CHR ''F'', sample_fund ''F'' ''100000'')) [0..<50]
                  @ sample_tail,
       enrichment_progress = None, enrichment_complete = None, enrichment_stats = None \<rparr>"

definition sample_checkpoint :: data where
  "sample_checkpoint =
     sample_catalog \<lparr> enrichment_progress :=
                        Some \<lparr> last_index = 50, p_successful = 40, p_failed = 10 \<rparr> \<rparr>"

definition small_catalog :: data where
  "small_catalog =
     \<lparr> d_funds = sample_tail,
       enrichment_progress = None, enrichment_complete = None, enrichment_stats = None \<rparr>"







section \<open>Properties of the Feed Parser\<close>

lemma split_on_nonempty: "split_on sep s \<noteq> []"
  by (induction s) (auto split: list.splits)

lemma split_on_no_sep: "sep \<notin> set s \<Longrightarrow> split_on sep s = [s]"
  by (induction s) auto

lemma split_on_many_has_sep: "2 \<le> length (split_on sep s) \<Longrightarrow> sep \<in> set s"
  using split_on_no_sep [of sep s] by (cases "sep \<in> set s") auto

lemma process_line_header:
  "is_header (strip raw) \<Longrightarrow>
   process_line v pf st raw = Inr (st \<lparr> current_amc := Some (strip raw) \<rparr>)"
  by (simp add: process_line_def)

lemma process_line_short:
  "\<not> is_header (strip raw) \<Longrightarrow> length (split_on CHR '';'' (strip raw)) < 6 \<Longrightarrow>
   process_line v pf st raw = Inr st"
  by (simp add: process_line_def Let_def)

lemma process_line_record:
  assumes "\<not> is_header (strip raw)" and "6 \<le> length (split_on CHR '';'' (strip raw))"
  shows "process_line v pf st raw =
         Inr (add_fund v pf st (strip (split_on CHR '';'' (strip raw) ! 0))
                (strip (split_on CHR '';'' (strip raw) ! 3))
                (strip (split_on CHR '';'' (strip raw) ! 4))
                (strip (split_on CHR '';'' (strip raw) ! 5)))"
proof -
  have "CHR '';'' \<in> set (strip raw)"
    using assms(2) by (intro split_on_many_has_sep) simp
  with assms show ?thesis
    by (simp add: process_line_def Let_def py_index_def bind_err_def split_on_nonempty)
qed

lemma process_line_cases:
  "process_line v pf st raw =
     (case line_fields raw of
        Some (code, nm, nav_str, dt) \<Rightarrow> Inr (add_fund v pf st code nm nav_str dt)
      | None \<Rightarrow> if is_header (strip raw) then Inr (st \<lparr> current_amc := Some (strip raw) \<rparr>)
                else Inr st)"
proof (cases "is_header (strip raw)")
  case True
  then show ?thesis by (simp add: process_line_header line_fields_def Let_def)
next
  case False
  show ?thesis
  proof (cases "6 \<le> length (split_on CHR '';'' (strip raw))")
    case True
    with False show ?thesis
      by (simp add: process_line_record line_fields_def Let_def)
  next
    case False
    with \<open>\<not> is_header (strip raw)\<close> show ?thesis
      by (simp add: process_line_short line_fields_def Let_def)
  qed
qed

lemma add_fund_skip:
  "nm = [] \<or> code = [] \<Longrightarrow> add_fund v pf st code nm nav_str dt = st"
  by (simp add: add_fund_def)

lemma add_fund_keys_distinct:
  "distinct (map fst (funds_data st)) \<Longrightarrow>
   distinct (map fst (funds_data (add_fund v pf st code nm nav_str dt)))"
  by (simp add: add_fund_def Let_def)

lemma add_fund_keeps:
  "map_of (funds_data st) k = Some r \<Longrightarrow>
   map_of (funds_data (add_fund v pf st code nm nav_str dt)) k = Some r"
  by (simp add: add_fund_def Let_def map_add_Some_iff)

lemma add_fund_other_key:
  "k \<notin> set (map fst (funds_data st)) \<Longrightarrow> nm = [] \<or> code = [] \<or> clean_fund_name nm \<noteq> k \<Longrightarrow>
   k \<notin> set (map fst (funds_data (add_fund v pf st code nm nav_str dt)))"
  by (auto simp: add_fund_def Let_def)

lemma add_fund_fresh:
  "nm \<noteq> [] \<Longrightarrow> code \<noteq> [] \<Longrightarrow> clean_fund_name nm \<notin> set (map fst (funds_data st)) \<Longrightarrow>
   add_fund v pf st code nm nav_str dt =
     st \<lparr> funds_data := funds_data st @
             [(clean_fund_name nm, make_fund v pf (current_amc st) code nm nav_str dt)],
          fund_count := fund_count st + 1 \<rparr>"
  by (simp add: add_fund_def Let_def)

lemma process_line_total: "\<exists>st'. process_line v pf st raw = Inr st'"
  by (simp add: process_line_cases split: option.splits)

lemma process_line_keys_distinct:
  "distinct (map fst (funds_data st)) \<Longrightarrow> process_line v pf st raw = Inr st' \<Longrightarrow>
   distinct (map fst (funds_data st'))"
  by (auto simp: process_line_cases add_fund_keys_distinct split: option.splits if_splits)

lemma process_line_keeps:
  "map_of (funds_data st) k = Some r \<Longrightarrow> process_line v pf st raw = Inr st' \<Longrightarrow>
   map_of (funds_data st') k = Some r"
  by (auto simp: process_line_cases add_fund_keeps split: option.splits if_splits)

lemma process_line_other_key:
  assumes "k \<notin> set (map fst (funds_data st))" and "line_key raw \<noteq> Some k"
    and "process_line v pf st raw = Inr st'"
  shows "k \<notin> set (map fst (funds_data st'))"
proof (cases "line_fields raw")
  case None
  with assms(1,3) show ?thesis
    by (auto simp: process_line_cases split: if_splits)
next
  case (Some q)
  obtain code nm nav_str dt where q: "q = (code, nm, nav_str, dt)"
    by (cases q) auto
  have st': "st' = add_fund v pf st code nm nav_str dt"
    using assms(3) Some q by (simp add: process_line_cases)
  have "nm = [] \<or> code = [] \<or> clean_fund_name nm \<noteq> k"
    using assms(2) Some q by (auto simp: line_key_def split: if_splits)
  then show ?thesis
    unfolding st' using assms(1) by (rule add_fund_other_key [rotated])
qed

lemma run_lines_total: "\<exists>st'. run_lines v pf st ls = (None, st')"
proof (induction ls arbitrary: st)
  case Nil
  show ?case by simp
next
  case (Cons l ls)
  obtain st1 where "process_line v pf st l = Inr st1"
    using process_line_total by blast
  with Cons.IH [of st1] show ?case by simp
qed

lemma run_lines_append:
  "run_lines v pf st xs = (None, st1) \<Longrightarrow> run_lines v pf st (xs @ ys) = run_lines v pf st1 ys"
  by (induction xs arbitrary: st) (auto split: sum.splits)

lemma run_lines_keys_distinct:
  "distinct (map fst (funds_data st)) \<Longrightarrow> run_lines v pf st ls = (None, st') \<Longrightarrow>
   distinct (map fst (funds_data st'))"
  by (induction ls arbitrary: st) (auto split: sum.splits dest: process_line_keys_distinct)

lemma run_lines_keeps:
  "map_of (funds_data st) k = Some r \<Longrightarrow> run_lines v pf st ls = (None, st') \<Longrightarrow>
   map_of (funds_data st') k = Some r"
  by (induction ls arbitrary: st) (auto split: sum.splits dest: process_line_keeps)

lemma run_lines_other_key:
  "k \<notin> set (map fst (funds_data st)) \<Longrightarrow> \<forall>l\<in>set ls. line_key l \<noteq> Some k \<Longrightarrow>
   run_lines v pf st ls = (None, st') \<Longrightarrow> k \<notin> set (map fst (funds_data st'))"
proof (induction ls arbitrary: st)
  case Nil
  then show ?case by simp
next
  case (Cons l ls)
  obtain st1 where s1: "process_line v pf st l = Inr st1"
    using process_line_total by blast
  have "k \<notin> set (map fst (funds_data st1))"
    using process_line_other_key [OF Cons.prems(1) _ s1] Cons.prems(2) by simp
  moreover have "run_lines v pf st1 ls = (None, st')"
    using Cons.prems(3) s1 by simp
  ultimately show ?case
    using Cons.IH [of st1] Cons.prems(2) by simp
qed

lemma distinct_key_count:
  "distinct (map fst kvs) \<Longrightarrow> map_of kvs k = Some r \<Longrightarrow>
   length (filter (\<lambda>kv. fst kv = k) kvs) = 1"
proof (induction kvs)
  case Nil
  then show ?case by simp
next
  case (Cons kv kvs)
  show ?case
  proof (cases "fst kv = k")
    case True
    then have "k \<notin> fst ` set kvs" using Cons.prems(1) by auto
    then have "filter (\<lambda>kv. fst kv = k) kvs = []"
      by (auto simp: filter_empty_conv)
    with True show ?thesis by simp
  next
    case False
    then have "map_of kvs k = Some r" using Cons.prems(2) by (cases kv) auto
    with Cons False show ?thesis by simp
  qed
qed

text \<open>
  Claim C5: in a feed where the line \<open>l1\<close> is the first to stand for its key (no
  line before it does, and the catalog did not hold the key), whatever follows it, the
  catalog at the end holds under that key the record made from \<open>l1\<close>, and holds it
  once; the keys of the catalog are pairwise distinct. Later lines with the same key
  are among those that follow: they neither replace the record nor add one.
\<close>

theorem first_seen_record_wins:
  assumes key: "line_fields l1 = Some (code, nm, nav_str, dt)" "nm \<noteq> []" "code \<noteq> []"
    and pre: "\<forall>l\<in>set pre. line_key l \<noteq> Some (clean_fund_name nm)"
    and st0: "distinct (map fst (funds_data st0))"
             "clean_fund_name nm \<notin> set (map fst (funds_data st0))"
  shows "\<exists>st1 st. run_lines v pf st0 pre = (None, st1)
           \<and> run_lines v pf st0 (pre @ l1 # post) = (None, st)
           \<and> map_of (funds_data st) (clean_fund_name nm)
               = Some (make_fund v pf (current_amc st1) code nm nav_str dt)
           \<and> length (filter (\<lambda>kv. fst kv = clean_fund_name nm) (funds_data st)) = 1
           \<and> distinct (map fst (funds_data st))"
proof -
  let ?k = "clean_fund_name nm"
  obtain st1 where r1: "run_lines v pf st0 pre = (None, st1)"
    using run_lines_total by blast
  have fresh: "?k \<notin> set (map fst (funds_data st1))"
    using run_lines_other_key [OF st0(2) pre r1] .
  have d1: "distinct (map fst (funds_data st1))"
    using run_lines_keys_distinct [OF st0(1) r1] .
  let ?st2 = "add_fund v pf st1 code nm nav_str dt"
  have p2: "process_line v pf st1 l1 = Inr ?st2"
    by (simp add: process_line_cases key(1))
  have m2: "map_of (funds_data ?st2) ?k = Some (make_fund v pf (current_amc st1) code nm nav_str dt)"
    using fresh key(2,3) by (simp add: add_fund_fresh map_add_Some_iff map_of_eq_None_iff)
  have d2: "distinct (map fst (funds_data ?st2))"
    using d1 by (rule add_fund_keys_distinct)
  obtain st where r3: "run_lines v pf ?st2 post = (None, st)"
    using run_lines_total by blast
  have whole: "run_lines v pf st0 (pre @ l1 # post) = (None, st)"
    using run_lines_append [OF r1, of "l1 # post"] p2 r3 by simp
  have m3: "map_of (funds_data st) ?k = Some (make_fund v pf (current_amc st1) code nm nav_str dt)"
    using run_lines_keeps [OF m2 r3] .
  have d3: "distinct (map fst (funds_data st))"
    using run_lines_keys_distinct [OF d2 r3] .
  have "length (filter (\<lambda>kv. fst kv = ?k) (funds_data st)) = 1"
    using distinct_key_count [OF d3 m3] .
  with r1 whole m3 d3 show ?thesis by blast
qed










text \<open>
  Claim C4: a line with fewer than six \<open>;\<close>-separated fields, or with an empty name
  field (index 3), or with an empty code field (index 0), is skipped: the loop body
  ends without an exception, and the catalog and the fund count are what they were.
\<close>

theorem malformed_line_is_skipped:
  assumes "length (split_on CHR '';'' (strip raw)) < 6
           \<or> strip (split_on CHR '';'' (strip raw) ! 3) = []
           \<or> strip (split_on CHR '';'' (strip raw) ! 0) = []"
  shows "\<exists>st'. process_line v pf st raw = Inr st'
           \<and> funds_data st' = funds_data st \<and> fund_count st' = fund_count st"
proof (cases "line_fields raw")
  case None
  then show ?thesis by (simp add: process_line_cases)
next
  case (Some q)
  obtain code nm nav_str dt where q: "q = (code, nm, nav_str, dt)"
    by (cases q) auto
  have "nm = [] \<or> code = []"
    using assms Some q by (auto simp: line_fields_def Let_def split: if_splits)
  then show ?thesis
    using Some q by (simp add: process_line_cases add_fund_skip)
qed

text \<open>
  The theorem at a line of four fields, at one with a blank name and at one with an
  empty code.
\<close>

theorem malformed_line_is_skipped_witness:
  "(\<exists>st'. process_line CLEAN sample_pyfloat new_parser ''119552;INF209KA13Z9;Axis Fund;61.40'' = Inr st'
       \<and> funds_data st' = [] \<and> fund_count st' = 0)
   \<and> (\<exists>st'. process_line CLEAN sample_pyfloat new_parser ''119552;INF209KA13Z9;-; ;61.40;03-Nov-2025'' = Inr st'
       \<and> funds_data st' = [] \<and> fund_count st' = 0)
   \<and> (\<exists>st'. process_line CLEAN sample_pyfloat new_parser '';INF209KA13Z9;-;Axis Fund;61.40;03-Nov-2025'' = Inr st'
       \<and> funds_data st' = [] \<and> fund_count st' = 0)"
proof -
  have h1: "length (split_on CHR '';'' (strip ''119552;INF209KA13Z9;Axis Fund;61.40'')) < 6"
    by code_simp
  have h2: "strip (split_on CHR '';'' (strip ''119552;INF209KA13Z9;-; ;61.40;03-Nov-2025'') ! 3) = []"
    by code_simp
  have h3: "strip (split_on CHR '';'' (strip '';INF209KA13Z9;-;Axis Fund;61.40;03-Nov-2025'') ! 0) = []"
    by code_simp
  show ?thesis
    using malformed_line_is_skipped [of "''119552;INF209KA13Z9;Axis Fund;61.40''"
                                        CLEAN sample_pyfloat new_parser]
          malformed_line_is_skipped [of "''119552;INF209KA13Z9;-; ;61.40;03-Nov-2025''"
                                        CLEAN sample_pyfloat new_parser]
          malformed_line_is_skipped [of "'';INF209KA13Z9;-;Axis Fund;61.40;03-Nov-2025''"
                                        CLEAN sample_pyfloat new_parser]
          h1 h2 h3
    by (simp add: new_parser_def)
qed


text \<open>
  The theorem at a feed of a section header and two record lines whose names clean
  to the same key.
\<close>

theorem first_seen_record_wins_witness:
  "line_key ''119552;INF209KA13Z9;-;Axis Bluechip Fund - Growth;61.40;03-Nov-2025''
     = Some ''Axis Bluechip Fund''
   \<and> (\<exists>st. run_lines CLEAN sample_pyfloat new_parser
         [''Example AMC'',
          ''119551;INF209KA12Z1;-;Axis Bluechip Fund - Direct Plan;58.12;03-Nov-2025'',
          ''119552;INF209KA13Z9;-;Axis Bluechip Fund - Growth;61.40;03-Nov-2025'']
         = (None, st)
       \<and> map_of (funds_data st) ''Axis Bluechip Fund''
           = Some (make_fund CLEAN sample_pyfloat (Some ''Example AMC'') ''119551''
                     ''Axis Bluechip Fund - Direct Plan'' ''58.12'' ''03-Nov-2025'')
       \<and> length (filter (\<lambda>kv. fst kv = ''Axis Bluechip Fund'') (funds_data st)) = 1
       \<and> distinct (map fst (funds_data st)))"
proof -
  let ?l1 = "''119551;INF209KA12Z1;-;Axis Bluechip Fund - Direct Plan;58.12;03-Nov-2025''"
  let ?l2 = "''119552;INF209KA13Z9;-;Axis Bluechip Fund - Growth;61.40;03-Nov-2025''"
  let ?nm = "''Axis Bluechip Fund - Direct Plan''"
  have f1: "line_fields ?l1 = Some (''119551'', ?nm, ''58.12'', ''03-Nov-2025'')"
    by code_simp
  have k1: "clean_fund_name ?nm = ''Axis Bluechip Fund''" by code_simp
  have k2: "line_key ?l2 = Some ''Axis Bluechip Fund''" by code_simp
  have pre: "\<forall>l\<in>set [''Example AMC'']. line_key l \<noteq> Some (clean_fund_name ?nm)"
    unfolding k1 by code_simp
  have r1: "run_lines CLEAN sample_pyfloat new_parser [''Example AMC'']
            = (None, new_parser \<lparr> current_amc := Some ''Example AMC'' \<rparr>)"
    by code_simp
  have d0: "distinct (map fst (funds_data new_parser))"
    and n0: "clean_fund_name ?nm \<notin> set (map fst (funds_data new_parser))"
    by (simp_all add: new_parser_def)
  from first_seen_record_wins [OF f1 _ _ pre d0 n0, of CLEAN sample_pyfloat "[?l2]"]
  obtain st1 st where
    "run_lines CLEAN sample_pyfloat new_parser [''Example AMC''] = (None, st1)"
    "run_lines CLEAN sample_pyfloat new_parser ([''Example AMC''] @ ?l1 # [?l2]) = (None, st)"
    "map_of (funds_data st) (clean_fund_name ?nm)
       = Some (make_fund CLEAN sample_pyfloat (current_amc st1) ''119551'' ?nm ''58.12'' ''03-Nov-2025'')"
    "length (filter (\<lambda>kv. fst kv = clean_fund_name ?nm) (funds_data st)) = 1"
    "distinct (map fst (funds_data st))"
    by auto
  then show ?thesis
    unfolding k1 r1 using k2 by auto
qed

text \<open>
  Claim C2 at a failing input. The CLEAN script classifies the name as published:
  the record of \<open>Sample Fund - Direct Index\<close>, stored under the key \<open>Sample Fund\<close>,
  gets the category \<open>Equity - Index\<close>, where the cleaned name gives \<open>Other\<close>, which
  is also what the sibling script stores.
\<close>

theorem category_reads_published_name:
  "process_line CLEAN sample_pyfloat new_parser
       ''120001;INF1;-;Sample Fund - Direct Index;58.12;03-Nov-2025''
     = Inr (new_parser \<lparr> funds_data :=
              [(''Sample Fund'',
                make_fund CLEAN sample_pyfloat None ''120001''
                  ''Sample Fund - Direct Index'' ''58.12'' ''03-Nov-2025'')],
            fund_count := 1 \<rparr>)
   \<and> f_category (make_fund CLEAN sample_pyfloat None ''120001''
                    ''Sample Fund - Direct Index'' ''58.12'' ''03-Nov-2025'')
       = ''Equity - Index''
   \<and> determine_category (clean_fund_name ''Sample Fund - Direct Index'') = ''Other''
   \<and> f_category (make_fund ACTUALLY_FIXED sample_pyfloat None ''120001''
                    ''Sample Fund - Direct Index'' ''58.12'' ''03-Nov-2025'')
       = ''Other''"
  by code_simp

section \<open>Properties of the return calculation\<close>

lemma horizon_return_None: "horizon_return c None = Inr None"
  by (simp add: horizon_return_def)

lemma horizon_return_zero: "horizon_return c (Some 0) = Inr None"
  by (simp add: horizon_return_def)


lemma horizon_return_total: "\<exists>r. horizon_return c p = Inr r"
  by (cases p) (auto simp: horizon_return_def py_truediv_def bind_err_def)

lemma horizon_return_no_zero_division: "horizon_return c p \<noteq> Inl e"
  using horizon_return_total [of c p] by auto

lemma calculate_returns_body_short:
  "length h < 2 \<Longrightarrow> calculate_returns_body sp pf now h = Inr None"
  by (simp add: calculate_returns_body_def)

lemma calculate_returns_body_bad_head:
  "2 \<le> length h \<Longrightarrow> pf (e_nav (h ! 0)) = None \<Longrightarrow>
   calculate_returns_body sp pf now h = Inl ValueError"
  by (auto simp: calculate_returns_body_def py_index_def bind_err_def)

lemma calculate_returns_body_ok:
  assumes "2 \<le> length h" and "pf (e_nav (h ! 0)) = Some c"
  shows "\<exists>r1 r3 r5.
           horizon_return c (get_nav_n_days_ago sp pf now h 365) = Inr r1
         \<and> horizon_return c (get_nav_n_days_ago sp pf now h 1095) = Inr r3
         \<and> horizon_return c (get_nav_n_days_ago sp pf now h 1825) = Inr r5
         \<and> calculate_returns_body sp pf now h
             = Inr (Some \<lparr> year1 = r1, year3 = r3, year5 = r5 \<rparr>)"
proof -
  obtain r1 where r1: "horizon_return c (get_nav_n_days_ago sp pf now h 365) = Inr r1"
    using horizon_return_total by blast
  obtain r3 where r3: "horizon_return c (get_nav_n_days_ago sp pf now h 1095) = Inr r3"
    using horizon_return_total by blast
  obtain r5 where r5: "horizon_return c (get_nav_n_days_ago sp pf now h 1825) = Inr r5"
    using horizon_return_total by blast
  have "calculate_returns_body sp pf now h = Inr (Some \<lparr> year1 = r1, year3 = r3, year5 = r5 \<rparr>)"
    using assms r1 r3 r5
    by (auto simp: calculate_returns_body_def py_index_def bind_err_def)
  with r1 r3 r5 show ?thesis by blast
qed

lemma return_for_horizon:
  assumes "days \<in> {365, 1095, 1825}" and "2 \<le> length h" and "pf (e_nav (h ! 0)) = Some c"
  shows "horizon_return c (get_nav_n_days_ago sp pf now h days)
         = Inr (return_for days (calculate_returns sp pf now h))"
proof -
  obtain r1 r3 r5 where
    "horizon_return c (get_nav_n_days_ago sp pf now h 365) = Inr r1"
    "horizon_return c (get_nav_n_days_ago sp pf now h 1095) = Inr r3"
    "horizon_return c (get_nav_n_days_ago sp pf now h 1825) = Inr r5"
    "calculate_returns_body sp pf now h = Inr (Some \<lparr> year1 = r1, year3 = r3, year5 = r5 \<rparr>)"
    using calculate_returns_body_ok [of h pf c sp now] assms(2,3) by blast
  then show ?thesis
    using assms(1)
    by (auto simp: calculate_returns_def return_for_def return_1year_def return_3year_def
                   return_5year_def)
qed

lemma return_for_absent_cases:
  assumes "days \<in> {365, 1095, 1825}"
    and "get_nav_n_days_ago sp pf now h days = None \<or> get_nav_n_days_ago sp pf now h days = Some 0"
  shows "return_for days (calculate_returns sp pf now h) = None"
proof (cases "2 \<le> length h")
  case False
  then have "calculate_returns sp pf now h = None"
    by (simp add: calculate_returns_def calculate_returns_body_short)
  then show ?thesis
    by (simp add: return_for_def return_1year_def return_3year_def return_5year_def)
next
  case True
  show ?thesis
  proof (cases "pf (e_nav (h ! 0))")
    case None
    then have "calculate_returns sp pf now h = None"
      using True by (simp add: calculate_returns_def calculate_returns_body_bad_head)
    then show ?thesis
      by (simp add: return_for_def return_1year_def return_3year_def return_5year_def)
  next
    case (Some c)
    from return_for_horizon [of days h pf c sp now] assms True Some
    show ?thesis
      by (auto simp: horizon_return_None horizon_return_zero)
  qed
qed

lemma scan_skips_unparsed_date:
  "sp (e_date x) = None \<Longrightarrow> scan_history sp pf t (x # h) = scan_history sp pf t h"
  by (simp add: entry_try_def)

lemma scan_skips_unparsed_nav:
  "pf (e_nav x) = None \<Longrightarrow> scan_history sp pf t (x # h) = scan_history sp pf t h"
  by (simp add: entry_try_def split: option.splits)

lemma scan_skips_newer:
  "\<not> at_or_before sp t x \<Longrightarrow> scan_history sp pf t (x # h) = scan_history sp pf t h"
  by (simp add: entry_try_def at_or_before_def split: option.splits)

lemma scan_takes:
  "at_or_before sp t x \<Longrightarrow> pf (e_nav x) = Some v \<Longrightarrow> scan_history sp pf t (x # h) = Some v"
  by (simp add: entry_try_def at_or_before_def split: option.splits)

lemma scan_filter_parsed:
  "scan_history sp pf t h = scan_history sp pf t (filter (\<lambda>x. sp (e_date x) \<noteq> None) h)"
proof (induction h)
  case Nil
  show ?case by simp
next
  case (Cons x h)
  show ?case
  proof (cases "sp (e_date x)")
    case None
    with Cons show ?thesis by (simp add: entry_try_def)
  next
    case (Some d)
    with Cons show ?thesis by (simp add: entry_try_def split: option.splits)
  qed
qed

lemma scan_none_old:
  "\<not> list_ex (at_or_before sp t) h \<Longrightarrow> scan_history sp pf t h = None"
  by (induction h) (simp_all add: scan_skips_newer del: scan_history.simps(2))

lemma scan_first_old:
  "first_at_or_before sp t h = Some x \<Longrightarrow>
   scan_history sp pf t h =
     (case pf (e_nav x) of Some v \<Rightarrow> Some v | None \<Rightarrow> scan_history sp pf t (after_first sp t h))"
proof (induction h)
  case Nil
  then show ?case by (simp add: first_at_or_before_def)
next
  case (Cons y h)
  show ?case
  proof (cases "at_or_before sp t y")
    case True
    then have "x = y" using Cons.prems by (simp add: first_at_or_before_def)
    with True show ?thesis
      by (cases "pf (e_nav y)")
         (simp_all add: scan_takes scan_skips_unparsed_nav after_first_def
                   del: scan_history.simps(2))
  next
    case False
    then have "first_at_or_before sp t h = Some x"
      using Cons.prems by (simp add: first_at_or_before_def)
    moreover have "after_first sp t (y # h) = after_first sp t h"
      using False by (simp add: after_first_def)
    ultimately show ?thesis
      using Cons.IH False
      by (simp add: scan_skips_newer del: scan_history.simps(2) split: option.splits)
  qed
qed





text \<open>
  Claim C7: the scan gives what it gives on the history without the points whose
  date does not parse, so such a point is passed over and the scan goes on; and for
  each horizon of 365, 1095 and 1825 days, when no point with a parsed date lies at or
  before the cutoff (\<open>now\<close> minus the horizon), the helper returns \<open>None\<close> and the
  return for that horizon is absent: neither an exception nor a zero.
\<close>

theorem unparsed_date_skipped_no_old_point_absent:
  "scan_history sp pf t h = scan_history sp pf t (filter (\<lambda>x. sp (e_date x) \<noteq> None) h)
   \<and> (days \<in> {365, 1095, 1825}
        \<and> \<not> list_ex (at_or_before sp (minus_days (now days) days)) h
      \<longrightarrow> get_nav_n_days_ago sp pf now h days = None
          \<and> return_for days (calculate_returns sp pf now h) = None)"
proof (intro conjI impI)
  show "scan_history sp pf t h = scan_history sp pf t (filter (\<lambda>x. sp (e_date x) \<noteq> None) h)"
    by (rule scan_filter_parsed)
next
  assume a: "days \<in> {365, 1095, 1825}
        \<and> \<not> list_ex (at_or_before sp (minus_days (now days) days)) h"
  then show g: "get_nav_n_days_ago sp pf now h days = None"
    by (simp add: get_nav_n_days_ago_def scan_none_old)
  show "return_for days (calculate_returns sp pf now h) = None"
    using return_for_absent_cases [of days sp pf now h] a g by blast
qed

text \<open>
  The theorem on a history with a date in another format in the middle: the 1-year
  scan reaches the point behind it, and nothing is old enough for 3 years.
\<close>

theorem unparsed_date_skipped_no_old_point_absent_witness:
  "scan_history sample_strptime sample_pyfloat (minus_days (sample_now 365) 365)
      [\<lparr> e_date = ''04-11-2026'', e_nav = ''120.0'' \<rparr>,
       \<lparr> e_date = ''2025/09/30'', e_nav = ''58.12'' \<rparr>,
       \<lparr> e_date = ''03-11-2025'', e_nav = ''100.0'' \<rparr>]
     = Some 100
   \<and> get_nav_n_days_ago sample_strptime sample_pyfloat sample_now
        [\<lparr> e_date = ''04-11-2026'', e_nav = ''120.0'' \<rparr>,
         \<lparr> e_date = ''2025/09/30'', e_nav = ''58.12'' \<rparr>,
         \<lparr> e_date = ''03-11-2025'', e_nav = ''100.0'' \<rparr>] 1095 = None
   \<and> return_for 1095 (calculate_returns sample_strptime sample_pyfloat sample_now
        [\<lparr> e_date = ''04-11-2026'', e_nav = ''120.0'' \<rparr>,
         \<lparr> e_date = ''2025/09/30'', e_nav = ''58.12'' \<rparr>,
         \<lparr> e_date = ''03-11-2025'', e_nav = ''100.0'' \<rparr>]) = None"
proof -
  let ?h = "[\<lparr> e_date = ''04-11-2026'', e_nav = ''120.0'' \<rparr>,
             \<lparr> e_date = ''2025/09/30'', e_nav = ''58.12'' \<rparr>,
             \<lparr> e_date = ''03-11-2025'', e_nav = ''100.0'' \<rparr>]"
  have f: "filter (\<lambda>x. sample_strptime (e_date x) \<noteq> None) ?h
           = [\<lparr> e_date = ''04-11-2026'', e_nav = ''120.0'' \<rparr>,
              \<lparr> e_date = ''03-11-2025'', e_nav = ''100.0'' \<rparr>]"
    by (simp add: sample_strptime_def)
  have v: "scan_history sample_strptime sample_pyfloat (minus_days (sample_now 365) 365)
             [\<lparr> e_date = ''04-11-2026'', e_nav = ''120.0'' \<rparr>,
              \<lparr> e_date = ''03-11-2025'', e_nav = ''100.0'' \<rparr>] = Some 100"
    by (simp add: entry_try_def sample_strptime_def sample_pyfloat_def sample_now_def
                  minus_days_def dt_le_def)
  have a: "(1095::nat) \<in> {365, 1095, 1825}
        \<and> \<not> list_ex (at_or_before sample_strptime (minus_days (sample_now 1095) 1095)) ?h"
    by (simp add: at_or_before_def sample_strptime_def sample_now_def minus_days_def dt_le_def)
  from unparsed_date_skipped_no_old_point_absent
         [of sample_strptime sample_pyfloat "minus_days (sample_now 365) 365" ?h 1095 sample_now]
       a
  show ?thesis unfolding f v by blast
qed

text \<open>
  Claim C10, as the code has it. \<open>calculate_returns\<close> always returns: the body of its
  \<open>try\<close> either ends normally or raises the \<open>ValueError\<close> of a current NAV that does not
  parse, which the handler turns into no result; a division by zero is never among
  its exceptions. When the first point at or before a horizon's cutoff has the NAV
  0.0, the helper returns 0.0 and the horizon is absent. When the NAV string of that
  point does not parse, the point is passed over and the scan goes on with the points
  after it.
\<close>

theorem calculate_returns_total_division_safe:
  "((\<exists>r. calculate_returns_body sp pf now h = Inr r \<and> calculate_returns sp pf now h = r)
      \<or> (calculate_returns_body sp pf now h = Inl ValueError
          \<and> calculate_returns sp pf now h = None))
   \<and> (days \<in> {365, 1095, 1825}
        \<and> first_at_or_before sp (minus_days (now days) days) h = Some x
        \<and> pf (e_nav x) = Some 0
      \<longrightarrow> get_nav_n_days_ago sp pf now h days = Some 0
          \<and> return_for days (calculate_returns sp pf now h) = None)
   \<and> (first_at_or_before sp t h = Some x \<and> pf (e_nav x) = None
      \<longrightarrow> scan_history sp pf t h = scan_history sp pf t (after_first sp t h))"
proof (intro conjI impI)
  show "(\<exists>r. calculate_returns_body sp pf now h = Inr r \<and> calculate_returns sp pf now h = r)
      \<or> (calculate_returns_body sp pf now h = Inl ValueError
          \<and> calculate_returns sp pf now h = None)"
  proof (cases "2 \<le> length h")
    case False
    then show ?thesis
      by (simp add: calculate_returns_def calculate_returns_body_short)
  next
    case True
    show ?thesis
    proof (cases "pf (e_nav (h ! 0))")
      case None
      with True show ?thesis
        by (simp add: calculate_returns_def calculate_returns_body_bad_head)
    next
      case (Some c)
      then show ?thesis
        using calculate_returns_body_ok [of h pf c sp now] True
        by (auto simp: calculate_returns_def)
    qed
  qed
next
  assume a: "days \<in> {365, 1095, 1825}
        \<and> first_at_or_before sp (minus_days (now days) days) h = Some x
        \<and> pf (e_nav x) = Some 0"
  then show g: "get_nav_n_days_ago sp pf now h days = Some 0"
    using scan_first_old [of sp "minus_days (now days) days" h x pf]
    by (simp add: get_nav_n_days_ago_def)
  show "return_for days (calculate_returns sp pf now h) = None"
    using return_for_absent_cases [of days sp pf now h] a g by blast
next
  assume "first_at_or_before sp t h = Some x \<and> pf (e_nav x) = None"
  then show "scan_history sp pf t h = scan_history sp pf t (after_first sp t h)"
    using scan_first_old [of sp t h x pf] by simp
qed

text \<open>
  The theorem on a history whose old point has NAV 0.0, and on one whose first old
  point has an unparseable NAV.
\<close>

theorem calculate_returns_total_division_safe_witness:
  "get_nav_n_days_ago sample_strptime sample_pyfloat sample_now
      [\<lparr> e_date = ''04-11-2026'', e_nav = ''120.0'' \<rparr>,
       \<lparr> e_date = ''03-11-2025'', e_nav = ''0.0'' \<rparr>] 365 = Some 0
   \<and> return_for 365 (calculate_returns sample_strptime sample_pyfloat sample_now
        [\<lparr> e_date = ''04-11-2026'', e_nav = ''120.0'' \<rparr>,
         \<lparr> e_date = ''03-11-2025'', e_nav = ''0.0'' \<rparr>]) = None
   \<and> scan_history sample_strptime sample_pyfloat (minus_days (sample_now 365) 365)
        [\<lparr> e_date = ''04-11-2026'', e_nav = ''120.0'' \<rparr>,
         \<lparr> e_date = ''30-09-2025'', e_nav = ''N.A.'' \<rparr>,
         \<lparr> e_date = ''29-09-2025'', e_nav = ''100.0'' \<rparr>]
     = scan_history sample_strptime sample_pyfloat (minus_days (sample_now 365) 365)
        [\<lparr> e_date = ''29-09-2025'', e_nav = ''100.0'' \<rparr>]"
proof -
  let ?t = "minus_days (sample_now 365) 365"
  let ?h0 = "[\<lparr> e_date = ''04-11-2026'', e_nav = ''120.0'' \<rparr>,
              \<lparr> e_date = ''03-11-2025'', e_nav = ''0.0'' \<rparr>]"
  let ?h1 = "[\<lparr> e_date = ''04-11-2026'', e_nav = ''120.0'' \<rparr>,
              \<lparr> e_date = ''30-09-2025'', e_nav = ''N.A.'' \<rparr>,
              \<lparr> e_date = ''29-09-2025'', e_nav = ''100.0'' \<rparr>]"
  have a: "(365::nat) \<in> {365, 1095, 1825}
        \<and> first_at_or_before sample_strptime ?t ?h0
            = Some \<lparr> e_date = ''03-11-2025'', e_nav = ''0.0'' \<rparr>
        \<and> sample_pyfloat (e_nav \<lparr> e_date = ''03-11-2025'', e_nav = ''0.0'' \<rparr>) = Some 0"
    by (simp add: first_at_or_before_def at_or_before_def sample_strptime_def sample_now_def
                  sample_pyfloat_def minus_days_def dt_le_def)
  have b: "first_at_or_before sample_strptime ?t ?h1
            = Some \<lparr> e_date = ''30-09-2025'', e_nav = ''N.A.'' \<rparr>
        \<and> sample_pyfloat (e_nav \<lparr> e_date = ''30-09-2025'', e_nav = ''N.A.'' \<rparr>) = None"
    by (simp add: first_at_or_before_def at_or_before_def sample_strptime_def sample_now_def
                  sample_pyfloat_def minus_days_def dt_le_def)
  have c: "after_first sample_strptime ?t ?h1 = [\<lparr> e_date = ''29-09-2025'', e_nav = ''100.0'' \<rparr>]"
    by (simp add: after_first_def at_or_before_def sample_strptime_def sample_now_def
                  minus_days_def dt_le_def)
  from calculate_returns_total_division_safe
         [of sample_strptime sample_pyfloat sample_now ?h0 365
             "\<lparr> e_date = ''03-11-2025'', e_nav = ''0.0'' \<rparr>" ?t]
       a
  have z: "get_nav_n_days_ago sample_strptime sample_pyfloat sample_now ?h0 365 = Some 0
           \<and> return_for 365 (calculate_returns sample_strptime sample_pyfloat sample_now ?h0) = None"
    by blast
  from calculate_returns_total_division_safe
         [of sample_strptime sample_pyfloat sample_now ?h1 365
             "\<lparr> e_date = ''30-09-2025'', e_nav = ''N.A.'' \<rparr>" ?t]
       b
  have "scan_history sample_strptime sample_pyfloat ?t ?h1
        = scan_history sample_strptime sample_pyfloat ?t (after_first sample_strptime ?t ?h1)"
    by blast
  with z show ?thesis unfolding c by blast
qed

text \<open>
  Claim C10 as stated makes the horizon absent when the NAV string of the first point
  at or before the cutoff does not parse. Here that point is the one of 30 September
  2025, its NAV is \<open>N.A.\<close>, and the 1-year return is 20.0, from the point after it.
\<close>

theorem unparsed_nav_scan_goes_on_counterexample:
  "first_at_or_before sample_strptime (minus_days (sample_now 365) 365)
      [\<lparr> e_date = ''04-11-2026'', e_nav = ''120.0'' \<rparr>,
       \<lparr> e_date = ''30-09-2025'', e_nav = ''N.A.'' \<rparr>,
       \<lparr> e_date = ''29-09-2025'', e_nav = ''100.0'' \<rparr>]
     = Some \<lparr> e_date = ''30-09-2025'', e_nav = ''N.A.'' \<rparr>
   \<and> sample_pyfloat ''N.A.'' = None
   \<and> return_1year (calculate_returns sample_strptime sample_pyfloat sample_now
        [\<lparr> e_date = ''04-11-2026'', e_nav = ''120.0'' \<rparr>,
         \<lparr> e_date = ''30-09-2025'', e_nav = ''N.A.'' \<rparr>,
         \<lparr> e_date = ''29-09-2025'', e_nav = ''100.0'' \<rparr>]) = Some 20"
  by (simp add: first_at_or_before_def at_or_before_def sample_strptime_def sample_now_def
                sample_pyfloat_def minus_days_def dt_le_def calculate_returns_def
                calculate_returns_body_def py_index_def bind_err_def get_nav_n_days_ago_def
                entry_try_def horizon_return_def py_truediv_def round2_def round_half_even_def
                return_1year_def)

section \<open>Properties of the batch\<close>

lemma save_progress_fields:
  "successful (fst (save_progress self d k)) = successful self"
  "failed (fst (save_progress self d k)) = failed self"
  "printed (fst (save_progress self d k)) = printed self"
  "output_file (fst (save_progress self d k)) = Some (snd (save_progress self d k))"
  "enrichment_progress (snd (save_progress self d k))
     = Some \<lparr> last_index = k, p_successful = successful self, p_failed = failed self \<rparr>"
  "d_funds (snd (save_progress self d k)) = d_funds d"
  by (simp_all add: save_progress_def Let_def)

lemma fetch_and_count_counters:
  assumes "\<not> no_scheme_code f"
  shows "successful (fst (fetch_and_count e i k f (self, d)))
           = successful self + (if succeeds e i f then 1 else 0)"
    and "failed (fst (fetch_and_count e i k f (self, d)))
           = failed self + (if succeeds e i f then 0 else 1)"
  using assms
  by (auto simp: fetch_and_count_def succeeds_def Let_def split: option.splits)

lemma fetch_and_count_rest:
  "printed (fst (fetch_and_count e i k f (self, d))) = printed self"
  "output_file (fst (fetch_and_count e i k f (self, d))) = output_file self"
  "length (d_funds (snd (fetch_and_count e i k f (self, d)))) = length (d_funds d)"
  by (auto simp: fetch_and_count_def Let_def set_returns_def split: option.splits)

text \<open>One pass without an interrupt: the counters, the progress line, the catalog size.\<close>

lemma enrich_step_counts:
  assumes "interrupt_of e \<noteq> Some (i, DuringFetch)" and "interrupt_of e \<noteq> Some (i, DuringSleep)"
  shows "\<exists>self' d'. enrich_step e i item (self, d) = (False, self', d')
           \<and> successful self' = successful self + (if succeeds e i (snd item) then 1 else 0)
           \<and> failed self' = failed self + (if succeeds e i (snd item) then 0 else 1)
           \<and> printed self' = printed self @ [i + 1]
           \<and> length (d_funds d') = length (d_funds d)"
proof (cases "no_scheme_code (snd item)")
  case True
  then show ?thesis
    by (simp add: enrich_step_def Let_def succeeds_def)
next
  case False
  let ?self1 = "self \<lparr> printed := printed self @ [i + 1] \<rparr>"
  let ?sd2 = "fetch_and_count e i (fst item) (snd item) (?self1, d)"
  have c: "successful (fst ?sd2) = successful self + (if succeeds e i (snd item) then 1 else 0)"
          "failed (fst ?sd2) = failed self + (if succeeds e i (snd item) then 0 else 1)"
    using fetch_and_count_counters [OF False, of e i "fst item" ?self1 d] by simp_all
  have r: "printed (fst ?sd2) = printed self @ [i + 1]"
          "length (d_funds (snd ?sd2)) = length (d_funds d)"
    using fetch_and_count_rest [of e i "fst item" "snd item" ?self1 d] by simp_all
  show ?thesis
  proof (cases "(i + 1) mod 50 = 0")
    case True
    let ?sp = "save_progress (fst ?sd2) (snd ?sd2) (i + 1)"
    have st: "enrich_step e i item (self, d) = (False, fst ?sp, snd ?sp)"
      using False True assms by (simp add: enrich_step_def Let_def)
    have "successful (fst ?sp) = successful self + (if succeeds e i (snd item) then 1 else 0)"
      and "failed (fst ?sp) = failed self + (if succeeds e i (snd item) then 0 else 1)"
      and "printed (fst ?sp) = printed self @ [i + 1]"
      and "length (d_funds (snd ?sp)) = length (d_funds d)"
      using c r by (simp_all only: save_progress_fields)
    with st show ?thesis by blast
  next
    case F: False
    have st: "enrich_step e i item (self, d) = (False, fst ?sd2, snd ?sd2)"
      using False F assms by (simp add: enrich_step_def Let_def)
    from st c r show ?thesis by blast
  qed
qed

lemma enrich_loop_counts:
  assumes "interrupt_of e = None"
  shows "\<exists>self' d'. enrich_loop e i items (self, d) = (False, self', d')
           \<and> successful self' = successful self + successes e i items
           \<and> failed self' = failed self + failures e i items
           \<and> printed self' = printed self @ map Suc [i..<i + length items]
           \<and> length (d_funds d') = length (d_funds d)"
proof (induction items arbitrary: i self d)
  case Nil
  show ?case by simp
next
  case (Cons item items)
  obtain self1 d1 where s: "enrich_step e i item (self, d) = (False, self1, d1)"
      "successful self1 = successful self + (if succeeds e i (snd item) then 1 else 0)"
      "failed self1 = failed self + (if succeeds e i (snd item) then 0 else 1)"
      "printed self1 = printed self @ [i + 1]"
      "length (d_funds d1) = length (d_funds d)"
    using enrich_step_counts [of e i item self d] assms by auto
  obtain self' d' where l: "enrich_loop e (i + 1) items (self1, d1) = (False, self', d')"
      "successful self' = successful self1 + successes e (i + 1) items"
      "failed self' = failed self1 + failures e (i + 1) items"
      "printed self' = printed self1 @ map Suc [i + 1..<i + 1 + length items]"
      "length (d_funds d') = length (d_funds d1)"
    using Cons.IH [of "i + 1" self1 d1] by auto
  have "map Suc [i..<i + length (item # items)]
        = [i + 1] @ map Suc [i + 1..<i + 1 + length items]"
    by (simp add: upt_rec)
  then show ?case
    using s l by simp
qed


lemma save_final_fields:
  "successful (fst (save_final self d)) = successful self"
  "failed (fst (save_final self d)) = failed self"
  "printed (fst (save_final self d)) = printed self"
  "fetch_errors (fst (save_final self d)) = fetch_errors self"
  "output_file (fst (save_final self d))
     = Some (d \<lparr> enrichment_complete := Some True,
                 enrichment_stats := Some \<lparr> total_funds = length (d_funds d),
                                           enriched = successful self,
                                           s_failed = failed self \<rparr>,
                 enrichment_progress := None \<rparr>)"
  by (simp_all add: save_final_def Let_def)

lemma resume_from_checkpoint:
  assumes "output_file self0 = Some ckpt"
    and "enrichment_progress ckpt = Some \<lparr> last_index = k, p_successful = a, p_failed = b \<rparr>"
    and "lower answer = ''yes''"
  shows "resume_from_progress self0 answer = (k, self0 \<lparr> successful := a, failed := b \<rparr>)"
  using assms by (simp add: resume_from_progress_def)


lemma enrich_funds_completed:
  assumes "enrich_loop e start (drop start (d_funds inp)) (self, inp) = (False, self1, d1)"
    and "d_funds inp \<noteq> []"
  shows "enrich_funds e (Some inp) self start
         = (Completed,
            if fetch_errors (fst (save_final self1 d1)) \<noteq> []
            then (fst (save_final self1 d1))
                   \<lparr> errors_file := Some (fetch_errors (fst (save_final self1 d1))) \<rparr>
            else fst (save_final self1 d1))"
  unfolding enrich_funds_def using assms by (simp add: Let_def)

lemma enrich_funds_crashed:
  assumes "enrich_loop e start (drop start (d_funds inp)) (self, inp) = (False, self1, d1)"
    and "d_funds inp = []"
  shows "enrich_funds e (Some inp) self start = (Crashed ZeroDivisionError, self1)"
  unfolding enrich_funds_def using assms by (simp add: Let_def)


lemma enrich_funds_counts:
  assumes "interrupt_of e = None"
  shows "\<exists>out self'. enrich_funds e (Some inp) self start = (out, self')
           \<and> successful self' = successful self + successes e start (drop start (d_funds inp))
           \<and> failed self' = failed self + failures e start (drop start (d_funds inp))
           \<and> printed self' = printed self @ map Suc [start..<start + length (drop start (d_funds inp))]"
proof -
  obtain self1 d1 where l:
      "enrich_loop e start (drop start (d_funds inp)) (self, inp) = (False, self1, d1)"
    and c: "successful self1 = successful self + successes e start (drop start (d_funds inp))"
      "failed self1 = failed self + failures e start (drop start (d_funds inp))"
      "printed self1 = printed self @ map Suc [start..<start + length (drop start (d_funds inp))]"
    using enrich_loop_counts [OF assms, of start "drop start (d_funds inp)" self inp] by auto
  show ?thesis
  proof (cases "d_funds inp = []")
    case True
    from enrich_funds_crashed [OF l True] c show ?thesis by blast
  next
    case False
    let ?s2 = "fst (save_final self1 d1)"
    let ?s3 = "if fetch_errors ?s2 \<noteq> [] then ?s2 \<lparr> errors_file := Some (fetch_errors ?s2) \<rparr> else ?s2"
    have "successful ?s3 = successful self1" "failed ?s3 = failed self1"
         "printed ?s3 = printed self1"
      by (simp_all add: save_final_fields)
    with c have "successful ?s3 = successful self + successes e start (drop start (d_funds inp))"
      "failed ?s3 = failed self + failures e start (drop start (d_funds inp))"
      "printed ?s3 = printed self @ map Suc [start..<start + length (drop start (d_funds inp))]"
      by (simp_all only:)
    with enrich_funds_completed [OF l False] show ?thesis by blast
  qed
qed







lemmas sample_defs = sample_env_def sample_fund_def sample_mfapi_def sample_strptime_def
  sample_pyfloat_def sample_now_def new_enricher_def small_catalog_def sample_tail_def

lemmas batch_defs = enrich_funds_def enrich_step_def fetch_and_count_def no_scheme_code_def
  get_fund_data_from_mfapi_def save_progress_def save_final_def set_returns_def Let_def

lemmas returns_defs = calculate_returns_def calculate_returns_body_def py_index_def bind_err_def
  get_nav_n_days_ago_def entry_try_def horizon_return_def py_truediv_def round2_def
  round_half_even_def minus_days_def dt_le_def

text \<open>
  Claim C8: with a checkpoint on disk at position 50 with the counters 40 and 10, and
  the answer yes, \<open>resume_from_progress\<close> restores the counters and returns 50; the
  batch that follows (no interrupt arriving) prints the progress lines of the positions
  51 to the end of the catalog, in order, and none for the first fifty entries; and
  its final counters are 40 plus the successes and 10 plus the failures among the
  entries from position 50 on.
\<close>

theorem resume_restores_and_continues:
  assumes "output_file self0 = Some ckpt"
    and "enrichment_progress ckpt = Some \<lparr> last_index = 50, p_successful = 40, p_failed = 10 \<rparr>"
    and "lower answer = ''yes''"
    and "interrupt_of e = None"
  shows "resume_from_progress self0 answer = (50, self0 \<lparr> successful := 40, failed := 10 \<rparr>)
       \<and> (\<exists>code self'. main e (Some inp) self0 answer = (code, self')
            \<and> successful self' = 40 + successes e 50 (drop 50 (d_funds inp))
            \<and> failed self' = 10 + failures e 50 (drop 50 (d_funds inp))
            \<and> printed self' = printed self0 @ map Suc [50..<length (d_funds inp)])"
proof -
  let ?self1 = "self0 \<lparr> successful := 40, failed := 10 \<rparr>"
  have r: "resume_from_progress self0 answer = (50, ?self1)"
    using resume_from_checkpoint [OF assms(1,2,3)] .
  obtain out self' where ef: "enrich_funds e (Some inp) ?self1 50 = (out, self')"
    and c: "successful self' = successful ?self1 + successes e 50 (drop 50 (d_funds inp))"
      "failed self' = failed ?self1 + failures e 50 (drop 50 (d_funds inp))"
      "printed self' = printed ?self1 @ map Suc [50..<50 + length (drop 50 (d_funds inp))]"
    using enrich_funds_counts [OF assms(4), of inp ?self1 50] by blast
  have "[50..<50 + length (drop 50 (d_funds inp))] = [50..<length (d_funds inp)]"
    by (cases "50 \<le> length (d_funds inp)") simp_all
  with c have c': "successful self' = 40 + successes e 50 (drop 50 (d_funds inp))"
      "failed self' = 10 + failures e 50 (drop 50 (d_funds inp))"
      "printed self' = printed self0 @ map Suc [50..<length (d_funds inp)]"
    by simp_all
  have "\<exists>code. main e (Some inp) self0 answer = (code, self')"
    using r ef by (cases out) (simp_all add: main_def)
  with r c' show ?thesis by blast
qed

text \<open>
  The theorem on the sample catalog of 52 entries: one success and one failure are
  added to the restored counters.
\<close>

theorem resume_restores_and_continues_witness:
  "resume_from_progress (new_enricher (Some sample_checkpoint)) ''Yes''
     = (50, (new_enricher (Some sample_checkpoint)) \<lparr> successful := 40, failed := 10 \<rparr>)
   \<and> (\<exists>code self'. main (sample_env None) (Some sample_catalog)
                        (new_enricher (Some sample_checkpoint)) ''Yes'' = (code, self')
        \<and> successful self' = 41 \<and> failed self' = 11 \<and> printed self' = [51, 52])"
proof -
  have h1: "output_file (new_enricher (Some sample_checkpoint)) = Some sample_checkpoint"
    by (simp add: new_enricher_def)
  have h2: "enrichment_progress sample_checkpoint
            = Some \<lparr> last_index = 50, p_successful = 40, p_failed = 10 \<rparr>"
    by (simp add: sample_checkpoint_def)
  have h3: "lower ''Yes'' = ''yes''" by code_simp
  have h4: "interrupt_of (sample_env None) = None" by (simp add: sample_env_def)
  have d: "drop 50 (d_funds sample_catalog) = sample_tail"
    by (simp add: sample_catalog_def)
  have n: "length (d_funds sample_catalog) = 52"
    by (simp add: sample_catalog_def sample_tail_def)
  have s: "successes (sample_env None) 50 sample_tail = 1"
    by (simp add: succeeds_def sample_defs batch_defs returns_defs)
  have f: "failures (sample_env None) 50 sample_tail = 1"
    by (simp add: succeeds_def sample_defs batch_defs returns_defs)
  have p: "printed (new_enricher (Some sample_checkpoint)) @ map Suc [50..<52] = [51, 52]"
    by (simp add: new_enricher_def upt_rec)
  from resume_restores_and_continues [OF h1 h2 h3 h4, of sample_catalog]
  show ?thesis unfolding d n s f p by simp
qed





section \<open>Properties of name cleaning\<close>




























































end
